theory Spec2Isabelle
  imports Complex_Main
begin

section \<open>IQSmart lens calculations: data model\<close>

text \<open>
  The embedding follows \<^verbatim>\<open>src/IQSmart/IQSmart.py\<close>, class \<^verbatim>\<open>calculations\<close>.
  Python and numpy floats are modelled as reals and motor steps as integers.
  Arithmetic is exact, except where the control flow of the source depends on the
  rounding of double precision: there the rounding is explicit (a rounding function
  \<open>rnd\<close>, a polynomial evaluator \<open>pv\<close>), and \<open>round_double\<close> is the rounding of
  IEEE 754 double precision.
  Every exception of the source is a value \<open>Inl e\<close> of the result type.
  \<^item> \<open>IndexError\<close>, \<open>KeyError\<close>, \<open>ZeroDivisionError\<close>, \<open>ValueError\<close>, \<open>TypeError\<close> are
    the Python exceptions of the same name.
  \<^item> \<open>NonFinite\<close> marks the places where a numpy scalar is divided by zero: numpy
    does not raise there but continues with \<open>inf\<close> or \<open>nan\<close>, values the reals
    do not have. The model stops with \<open>Inl NonFinite\<close> at such a place.
\<close>

datatype error = IndexError | KeyError | ZeroDivisionError | ValueError | TypeError | NonFinite

text \<open>The status strings of the class (\<^verbatim>\<open>OK = 'OK'\<close>, \<^verbatim>\<open>ERR_NO_CAL = 'no cal data'\<close>, ...).\<close>

datatype status =
    OK | ERR_NO_CAL | ERR_FL_MIN | ERR_FL_MAX | ERR_OD_MIN | ERR_OD_MAX | ERR_OD_VALUE
  | ERR_NA_MIN | ERR_NA_MAX | ERR_RANGE_MIN | ERR_RANGE_MAX | ERR_CALC | WARN_VALUE

definition INFINITY :: real where
  "INFINITY = 1000000"

definition OD_MIN_DEFAULT :: real where
  "OD_MIN_DEFAULT = 2"

definition COC_DEFAULT :: real where
  "COC_DEFAULT = 20 / 1000"

text \<open>A curve set \<^verbatim>\<open>{'cp1': [...], 'coef': [[...], ...]}\<close> and the \<^verbatim>\<open>'FL'\<close> section
  \<^verbatim>\<open>{'coef': [[...]], 'coefInv': [[...]]}\<close>.\<close>

record curves =
  cp1 :: "real list"
  coef :: "real list list"

record fl_curves =
  fl_coef :: "real list list"
  fl_coefInv :: "real list list"

text \<open>The calibration dictionary: a key that is absent is \<open>None\<close>.\<close>

record calData =
  cal_zoomSteps :: "int option"
  cal_focusSteps :: "int option"
  cal_irisSteps :: "int option"
  cal_flMin :: "real option"
  cal_flMax :: "real option"
  cal_odMin :: "real option"
  cal_odMax :: "real option"
  cal_fnum :: "real option"
  cal_FL :: "fl_curves option"
  cal_tracking :: "curves option"
  cal_AP :: "curves option"
  cal_dist :: "curves option"
  cal_iris :: "curves option"

text \<open>The empty dictionary \<^verbatim>\<open>{}\<close> that \<^verbatim>\<open>__init__\<close> stores.\<close>

definition emptyCal :: calData where
  "emptyCal = \<lparr> cal_zoomSteps = None, cal_focusSteps = None, cal_irisSteps = None,
      cal_flMin = None, cal_flMax = None, cal_odMin = None, cal_odMax = None,
      cal_fnum = None, cal_FL = None, cal_tracking = None, cal_AP = None,
      cal_dist = None, cal_iris = None \<rparr>"

text \<open>The fitted coefficients are the Python list \<^verbatim>\<open>[]\<close> that \<^verbatim>\<open>__init__\<close> stores,
  and a numpy array after every fit.\<close>

datatype coeffs = PyList "real list" | NdArray "real list"

text \<open>The object: calibration data, circle of confusion and the back focal length
  correction samples \<^verbatim>\<open>[FL, focus shift, OD]\<close> with their fitted coefficients.\<close>

record calculations =
  calDataOf :: calData
  COC :: real
  BFLCorrectionValues :: "(real \<times> int \<times> real) list"
  BFLCorrectionCoeffs :: coeffs

definition init :: calculations where
  "init = \<lparr> calDataOf = emptyCal, COC = COC_DEFAULT,
      BFLCorrectionValues = [], BFLCorrectionCoeffs = PyList [] \<rparr>"

text \<open>The numpy releases that differ in how an array compares with \<^verbatim>\<open>[]\<close>:
  before 1.25, from 1.25 up to 2.1, and from 2.2 on.\<close>

datatype numpy_release = Before_1_25 | From_1_25 | From_2_2

section \<open>Python and numpy primitives\<close>

definition bindE :: "error + 'a \<Rightarrow> ('a \<Rightarrow> error + 'b) \<Rightarrow> error + 'b" where
  "bindE m f = (case m of Inl e \<Rightarrow> Inl e | Inr x \<Rightarrow> f x)"

text \<open>\<^verbatim>\<open>xs[i]\<close> for an index \<open>i \<ge> 0\<close>, and \<^verbatim>\<open>xs[-k]\<close> for \<open>k \<ge> 1\<close>.\<close>

definition idx :: "'a list \<Rightarrow> nat \<Rightarrow> error + 'a" where
  "idx xs i = (if i < length xs then Inr (xs ! i) else Inl IndexError)"

definition idx_back :: "'a list \<Rightarrow> nat \<Rightarrow> error + 'a" where
  "idx_back xs k = (if 1 \<le> k \<and> k \<le> length xs then Inr (xs ! (length xs - k)) else Inl IndexError)"

text \<open>\<^verbatim>\<open>d[key]\<close> on the calibration dictionary.\<close>

definition key :: "'a option \<Rightarrow> error + 'a" where
  "key v = (case v of None \<Rightarrow> Inl KeyError | Some x \<Rightarrow> Inr x)"

text \<open>\<^verbatim>\<open>int(x)\<close> of a float truncates towards zero.\<close>

definition py_int :: "real \<Rightarrow> int" where
  "py_int r = (if r < 0 then \<lceil>r\<rceil> else \<lfloor>r\<rfloor>)"

text \<open>Rounding to IEEE 754 double precision, to nearest with ties to even, for
  values in the normal range (no overflow, no subnormal numbers): \<open>binade\<close> finds the
  exponent \<open>e\<close> with \<open>2 ^ e \<le> x < 2 ^ (e + 1)\<close> (its first argument bounds the search
  and exceeds the exponent range of doubles), and the value is rounded to a multiple
  of \<open>2 ^ (e - 52)\<close>.\<close>

fun binade :: "nat \<Rightarrow> real \<Rightarrow> int" where
  "binade 0 x = 0"
| "binade (Suc fuel) x =
     (if 2 \<le> x then binade fuel (x / 2) + 1
      else if x < 1 then binade fuel (2 * x) - 1
      else 0)"

definition pow2 :: "int \<Rightarrow> real" where
  "pow2 k = (if 0 \<le> k then 2 ^ nat k else 1 / 2 ^ nat (- k))"

definition round_half_even :: "real \<Rightarrow> int" where
  "round_half_even q =
    (let f = \<lfloor>q\<rfloor>; r = q - real_of_int f
     in if r < 1 / 2 then f
        else if 1 / 2 < r then f + 1
        else if even f then f else f + 1)"

definition round_double :: "real \<Rightarrow> real" where
  "round_double x =
    (if x = 0 then 0
     else let ulp = pow2 (binade 2200 \<bar>x\<bar> - 52)
          in sgn x * real_of_int (round_half_even (\<bar>x\<bar> / ulp)) * ulp)"

text \<open>\<^verbatim>\<open>numpy.polynomial.polynomial.polyval(x, c)\<close>, coefficients low degree first:
  \<^verbatim>\<open>c0 = c[-1] + x*0; for i in range(2, len(c) + 1): c0 = c[-i] + c0*x\<close>.
  \<^verbatim>\<open>c[-1]\<close> raises IndexError on an empty coefficient array.\<close>

definition polyval :: "real \<Rightarrow> real list \<Rightarrow> error + real" where
  "polyval x c = (case rev c of [] \<Rightarrow> Inl IndexError
     | cn # cs \<Rightarrow> Inr (fold (\<lambda>ci c0. ci + c0 * x) cs (cn + x * 0)))"

text \<open>The same evaluation with every product and sum rounded by \<open>rnd\<close>, as numpy
  computes it on doubles.\<close>

definition polyval_rounded :: "(real \<Rightarrow> real) \<Rightarrow> real \<Rightarrow> real list \<Rightarrow> error + real" where
  "polyval_rounded rnd x c = (case rev c of [] \<Rightarrow> Inl IndexError
     | cn # cs \<Rightarrow> Inr (fold (\<lambda>ci c0. rnd (ci + rnd (c0 * x))) cs (rnd (cn + rnd (x * 0)))))"

text \<open>\<^verbatim>\<open>np.argsort(ks)\<close>: the indices of \<open>ks\<close> in ascending order of their keys.
  numpy's default sort is not stable and leaves the order of equal keys open; the
  model keeps equal keys in index order. Where two keys are equal the source may
  select in another order; no statement below depends on the order of equal keys.\<close>

definition argsort :: "real list \<Rightarrow> nat list" where
  "argsort ks = sort_key (\<lambda>i. ks ! i) [0..<length ks]"

section \<open>Support functions\<close>

text \<open>\<^verbatim>\<open>interpolate(coefList, cp1List, cp1Target, xValue)\<close>, source lines 616-639.
  \<^verbatim>\<open>cp1List\<close> is a Python list of floats, so for a Python float target the division
  raises ZeroDivisionError when the two selected control points are equal. (A caller
  that passes a numpy scalar as target gets \<open>inf\<close> or \<open>nan\<close> there; the model does
  not tell the two apart.)\<close>

definition interpolate :: "real list list \<Rightarrow> real list \<Rightarrow> real \<Rightarrow> real \<Rightarrow> error + real" where
  "interpolate coefList cp1List cp1Target xValue =
    (if length cp1List \<le> 1 then
       bindE (idx coefList 0) (\<lambda>c. polyval cp1Target c)
     else
       let valList = map (\<lambda>c. c - cp1Target) cp1List;
           valIdx = argsort (map abs valList);
           i0 = valIdx ! 0;
           i1 = valIdx ! 1
       in bindE (idx coefList i0) (\<lambda>lowerCoeffs.
          bindE (idx coefList i1) (\<lambda>upperCoeffs.
          bindE (polyval xValue lowerCoeffs) (\<lambda>lowerValue.
          bindE (polyval xValue upperCoeffs) (\<lambda>upperValue.
          if cp1List ! i1 - cp1List ! i0 = 0 then Inl ZeroDivisionError
          else
            let interpolation_factor =
                  (cp1Target - cp1List ! i0) / (cp1List ! i1 - cp1List ! i0)
            in Inr (lowerValue + interpolation_factor * (upperValue - lowerValue)))))))"

text \<open>\<^verbatim>\<open>NA2FNum\<close> and \<^verbatim>\<open>FNum2NA\<close>: \<^verbatim>\<open>1 / (2 * v)\<close>.\<close>

definition NA2FNum :: "real \<Rightarrow> error + real" where
  "NA2FNum NA = (if 2 * NA = 0 then Inl ZeroDivisionError else Inr (1 / (2 * NA)))"

definition FNum2NA :: "real \<Rightarrow> error + real" where
  "FNum2NA fNum = (if 2 * fNum = 0 then Inl ZeroDivisionError else Inr (1 / (2 * fNum)))"

text \<open>\<^verbatim>\<open>list.index(v)\<close>: the first position of \<open>v\<close>, ValueError when absent.\<close>

fun index_of :: "real list \<Rightarrow> real \<Rightarrow> error + nat" where
  "index_of [] v = Inl ValueError"
| "index_of (x # xs) v =
     (if x = v then Inr 0
      else (case index_of xs v of Inl e \<Rightarrow> Inl e | Inr i \<Rightarrow> Inr (Suc i)))"

text \<open>A \<^verbatim>\<open>for\<close> loop that appends one computed value per element and stops at
  the first exception.\<close>

fun mapE :: "('a \<Rightarrow> error + 'b) \<Rightarrow> 'a list \<Rightarrow> error + 'b list" where
  "mapE f [] = Inr []"
| "mapE f (x # xs) =
     (case f x of Inl e \<Rightarrow> Inl e
      | Inr y \<Rightarrow> (case mapE f xs of Inl e \<Rightarrow> Inl e | Inr ys \<Rightarrow> Inr (y # ys)))"

section \<open>Motor steps to engineering units\<close>

text \<open>\<^verbatim>\<open>zoomStep2FL(zoomStep)\<close>, source lines 81-98. The only arithmetic of the
  function is the call of \<^verbatim>\<open>nppp.polyval\<close>; \<open>pv\<close> stands for that evaluator, which
  numpy runs in double precision. \<open>zoomStep2FL\<close> is the function with the exact
  evaluator \<open>polyval\<close>.\<close>

definition zoomStep2FL_with ::
  "(real \<Rightarrow> real list \<Rightarrow> error + real) \<Rightarrow> calData \<Rightarrow> int
     \<Rightarrow> error + (real \<times> status \<times> real \<times> real)" where
  "zoomStep2FL_with pv cal zoomStep =
    (case cal_FL cal of
       None \<Rightarrow> Inr (0, ERR_NO_CAL, 0, 0)
     | Some fl \<Rightarrow>
         bindE (idx (fl_coefInv fl) 0) (\<lambda>c.
         bindE (pv (real_of_int zoomStep) c) (\<lambda>FL.
         bindE (key (cal_flMin cal)) (\<lambda>flMin.
         bindE (key (cal_flMax cal)) (\<lambda>flMax.
         Inr (FL,
              (if FL < flMin then ERR_FL_MIN else if FL > flMax then ERR_FL_MAX else OK),
              flMin, flMax))))))"

definition zoomStep2FL :: "calData \<Rightarrow> int \<Rightarrow> error + (real \<times> status \<times> real \<times> real)" where
  "zoomStep2FL cal zoomStep = zoomStep2FL_with polyval cal zoomStep"

text \<open>The loop of \<^verbatim>\<open>focusStep2OD\<close> (source lines 123-125): the focus step of every
  tracking control point at the zoom step, plus the BFL correction.\<close>

definition focusStepList :: "curves \<Rightarrow> int \<Rightarrow> int \<Rightarrow> error + real list" where
  "focusStepList tr zoomStep BFL =
    mapE (\<lambda>i. bindE (idx (coef tr) i) (\<lambda>c.
               bindE (polyval (real_of_int zoomStep) c) (\<lambda>v.
               Inr (v + real_of_int BFL))))
         [0..<length (cp1 tr)]"

text \<open>\<^verbatim>\<open>focusStep2OD(focusStep, zoomStep, BFL)\<close>, source lines 111-150.
  \<open>polyfit\<close> stands for \<^verbatim>\<open>numpy.polynomial.polynomial.polyfit(x, y, deg)\<close>, a
  least-squares fit of the library that returns \<open>deg + 1\<close> coefficients.
  \<^verbatim>\<open>1000 / polyval(...)\<close> divides by a numpy scalar.\<close>

definition focusStep2OD ::
  "(real list \<Rightarrow> real list \<Rightarrow> nat \<Rightarrow> real list) \<Rightarrow> calData \<Rightarrow> int \<Rightarrow> int \<Rightarrow> int
     \<Rightarrow> error + (real \<times> status \<times> real \<times> real)" where
  "focusStep2OD polyfit cal focusStep zoomStep BFL =
    (case cal_tracking cal of
       None \<Rightarrow> Inr (0, ERR_NO_CAL, 0, 0)
     | Some tr \<Rightarrow>
         let DONT_CALC_MAX_OVER = 100;
             DONT_CALC_MIN_UNDER = 400;
             cp1List = cp1 tr
         in bindE (focusStepList tr zoomStep BFL) (\<lambda>focusStepList.
            let ODMin = (case cal_odMin cal of Some v \<Rightarrow> v | None \<Rightarrow> OD_MIN_DEFAULT);
                ODMax = (case cal_odMax cal of Some v \<Rightarrow> v | None \<Rightarrow> INFINITY)
            in bindE (idx focusStepList 0) (\<lambda>first.
               if real_of_int focusStep > first + DONT_CALC_MAX_OVER then
                 Inr (0, ERR_OD_MAX, ODMin, ODMax)
               else
                 bindE (idx_back focusStepList 1) (\<lambda>final.
                 if real_of_int focusStep < final - DONT_CALC_MIN_UNDER then
                   Inr (0, ERR_OD_MIN, ODMin, ODMax)
                 else
                   bindE (polyval (real_of_int focusStep) (polyfit focusStepList cp1List 3)) (\<lambda>r.
                   if r = 0 then Inl NonFinite
                   else
                     let OD = 1000 / r
                     in Inr (OD,
                             (if OD < 0 then ERR_OD_MAX
                              else if OD < ODMin then ERR_OD_MIN else OK),
                             ODMin, ODMax))))))"

text \<open>\<^verbatim>\<open>irisStep2NA(irisStep, FL, rangeLimit)\<close>, source lines 160-183.\<close>

definition irisStep2NA ::
  "calData \<Rightarrow> int \<Rightarrow> real \<Rightarrow> bool \<Rightarrow> error + (real \<times> status \<times> real \<times> real)" where
  "irisStep2NA cal irisStep FL rangeLimit =
    (case cal_AP cal of
       None \<Rightarrow> Inr (0, ERR_NO_CAL, 0, 0)
     | Some ap \<Rightarrow>
         bindE (interpolate (coef ap) (cp1 ap) FL (real_of_int irisStep)) (\<lambda>NA.
         bindE (key (cal_irisSteps cal)) (\<lambda>irisSteps.
         bindE (interpolate (coef ap) (cp1 ap) FL (real_of_int irisSteps)) (\<lambda>NAMinCurve.
         bindE (interpolate (coef ap) (cp1 ap) FL 0) (\<lambda>NAMaxCurve.
         bindE (key (cal_fnum cal)) (\<lambda>fnum.
         if 2 * fnum = 0 then Inl ZeroDivisionError
         else
           let NAMaxCal = 1 / (2 * fnum);
               NAMax = min NAMaxCurve NAMaxCal;
               NAMin = max NAMinCurve (1 / 100)
           in if NA > NAMax then
                Inr (if rangeLimit then NAMax else NA, ERR_NA_MAX, NAMin, NAMax)
              else if NA < NAMin then
                Inr (if rangeLimit then NAMin else NA, ERR_NA_MIN, NAMin, NAMax)
              else Inr (NA, OK, NAMin, NAMax)))))))"

text \<open>\<^verbatim>\<open>irisStep2FNum(irisStep, FL)\<close>, source lines 192-198.\<close>

definition irisStep2FNum ::
  "calData \<Rightarrow> int \<Rightarrow> real \<Rightarrow> error + (real \<times> status \<times> real \<times> real)" where
  "irisStep2FNum cal irisStep FL =
    (case cal_AP cal of
       None \<Rightarrow> Inr (0, ERR_NO_CAL, 0, 0)
     | Some ap \<Rightarrow>
         bindE (irisStep2NA cal irisStep FL True) (\<lambda>(NA, err, NAMin, NAMax).
         bindE (NA2FNum NA) (\<lambda>fNum.
         bindE (NA2FNum NAMin) (\<lambda>fNumMin.
         bindE (NA2FNum NAMax) (\<lambda>fNumMax.
         Inr (fNum, err, fNumMin, fNumMax))))))"

section \<open>Engineering units to motor steps\<close>

text \<open>\<^verbatim>\<open>FL2ZoomStep(FL)\<close>, source lines 210-228, over the evaluator \<open>pv\<close> as for
  \<open>zoomStep2FL_with\<close>: the truncation \<^verbatim>\<open>int()\<close> makes the result depend on the
  rounding of the evaluation. \<open>FL2ZoomStep\<close> is the function with the exact evaluator.\<close>

definition FL2ZoomStep_with ::
  "(real \<Rightarrow> real list \<Rightarrow> error + real) \<Rightarrow> calData \<Rightarrow> real \<Rightarrow> error + (int \<times> status)" where
  "FL2ZoomStep_with pv cal FL =
    (case cal_FL cal of
       None \<Rightarrow> Inr (0, ERR_NO_CAL)
     | Some fl \<Rightarrow>
         bindE (idx (fl_coef fl) 0) (\<lambda>c.
         bindE (pv FL c) (\<lambda>v.
         let zoomStep = py_int v
         in bindE (key (cal_zoomSteps cal)) (\<lambda>zoomStepMax.
            if zoomStep < 0 then Inr (0, ERR_RANGE_MIN)
            else if zoomStep > zoomStepMax then Inr (zoomStepMax, ERR_RANGE_MAX)
            else Inr (zoomStep, OK)))))"

definition FL2ZoomStep :: "calData \<Rightarrow> real \<Rightarrow> error + (int \<times> status)" where
  "FL2ZoomStep cal FL = FL2ZoomStep_with polyval cal FL"

text \<open>\<^verbatim>\<open>OD2FocusStep(OD, zoomStep, BFL)\<close>, source lines 240-257.
  \<^verbatim>\<open>invOD = 1000 / OD\<close> is evaluated first, on the caller's Python number.\<close>

definition OD2FocusStep :: "calData \<Rightarrow> real \<Rightarrow> int \<Rightarrow> int \<Rightarrow> error + (int \<times> status)" where
  "OD2FocusStep cal OD zoomStep BFL =
    (case cal_tracking cal of
       None \<Rightarrow> Inr (0, ERR_NO_CAL)
     | Some tr \<Rightarrow>
         if OD = 0 then Inl ZeroDivisionError
         else
           let invOD = 1000 / OD
           in bindE (interpolate (coef tr) (cp1 tr) invOD (real_of_int zoomStep)) (\<lambda>v.
              let focusStep = py_int v + BFL
              in bindE (key (cal_focusSteps cal)) (\<lambda>focusStepMax.
                 if focusStep < 0 then Inr (0, ERR_RANGE_MIN)
                 else if focusStep > focusStepMax then Inr (focusStepMax, ERR_RANGE_MAX)
                 else Inr (focusStep, OK))))"

text \<open>\<^verbatim>\<open>ODFL2FocusStep(OD, FL, BFL)\<close>, source lines 266-271.\<close>

definition ODFL2FocusStep :: "calData \<Rightarrow> real \<Rightarrow> real \<Rightarrow> int \<Rightarrow> error + (int \<times> status)" where
  "ODFL2FocusStep cal OD FL BFL =
    (if cal = emptyCal then Inr (0, ERR_NO_CAL)
     else bindE (FL2ZoomStep cal FL) (\<lambda>(zoomStep, err0).
          OD2FocusStep cal OD zoomStep BFL))"

text \<open>\<^verbatim>\<open>NA2IrisStep(NA, FL)\<close>, source lines 280-317.
  \<open>newton\<close> stands for \<^verbatim>\<open>scipy.optimize.newton(merit, 20, args=(coef, NA))\<close>: the root
  it finds, or \<open>None\<close> when it raises RuntimeError (no convergence).\<close>

definition merit :: "real list \<Rightarrow> real \<Rightarrow> real \<Rightarrow> error + real" where
  "merit c target x = bindE (polyval x c) (\<lambda>v. Inr (v - target))"

text \<open>The loop \<^verbatim>\<open>for f in closestFL\<close>: \<open>err\<close> and \<open>stepValueList\<close> are carried along.\<close>

fun NA2IrisStep_loop ::
  "((real \<Rightarrow> error + real) \<Rightarrow> real \<Rightarrow> real option) \<Rightarrow> calData \<Rightarrow> curves \<Rightarrow> real
     \<Rightarrow> real list \<Rightarrow> status \<Rightarrow> real list \<Rightarrow> error + (real list \<times> status)" where
  "NA2IrisStep_loop newton cal ap NA [] err stepValueList = Inr (stepValueList, err)"
| "NA2IrisStep_loop newton cal ap NA (f # fs) err stepValueList =
     (case index_of (cp1 ap) f of Inl e \<Rightarrow> Inl e | Inr i \<Rightarrow>
      (case idx (coef ap) i of Inl e \<Rightarrow> Inl e | Inr c \<Rightarrow>
       (case polyval 0 c of Inl e \<Rightarrow> Inl e | Inr NAMax \<Rightarrow>
        if NA < NAMax then
          (case newton (merit c NA) 20 of
             Some stepValue \<Rightarrow>
               NA2IrisStep_loop newton cal ap NA fs err (stepValueList @ [stepValue])
           | None \<Rightarrow>
               (case key (cal_irisSteps cal) of Inl e \<Rightarrow> Inl e | Inr irisSteps \<Rightarrow>
                  NA2IrisStep_loop newton cal ap NA fs ERR_NA_MIN
                    (stepValueList @ [real_of_int irisSteps])))
        else NA2IrisStep_loop newton cal ap NA fs ERR_NA_MAX (stepValueList @ [0]))))"

text \<open>The two calibrated focal lengths closest to the target (source lines 284-288),
  in the order of the calibration list. \<^verbatim>\<open>np.subtract\<close> and \<^verbatim>\<open>np.add\<close> round their
  results (\<open>rnd\<close>), so an entry of \<^verbatim>\<open>closestFL\<close> is the control point minus and plus
  \<open>FL\<close>, rounded twice, and need not be the control point itself.\<close>

definition closestFL :: "(real \<Rightarrow> real) \<Rightarrow> real list \<Rightarrow> real \<Rightarrow> real list" where
  "closestFL rnd cp1List FL =
    (let FLList = map (\<lambda>c. rnd (c - FL)) cp1List;
         FLIdx = argsort (map abs FLList)
     in map (\<lambda>i. rnd (FLList ! i + FL)) (sort (take 2 FLIdx)))"

text \<open>\<^verbatim>\<open>closestFL\<close> is a numpy array: its division by zero does not raise, and
  \<^verbatim>\<open>int()\<close> of the resulting \<open>nan\<close> (or \<open>inf\<close>) raises ValueError (or OverflowError);
  the model raises ValueError. The difference of two doubles is zero exactly when
  they are equal.\<close>

definition NA2IrisStep ::
  "(real \<Rightarrow> real) \<Rightarrow> ((real \<Rightarrow> error + real) \<Rightarrow> real \<Rightarrow> real option) \<Rightarrow> calData
     \<Rightarrow> real \<Rightarrow> real \<Rightarrow> error + (int \<times> status)" where
  "NA2IrisStep rnd newton cal NA FL =
    (case cal_AP cal of
       None \<Rightarrow> Inr (0, ERR_NO_CAL)
     | Some ap \<Rightarrow>
         let closest = closestFL rnd (cp1 ap) FL
         in bindE (NA2IrisStep_loop newton cal ap NA closest OK []) (\<lambda>(stepValueList, err).
            bindE (idx closest 0) (\<lambda>closest0.
            bindE (idx closest 1) (\<lambda>closest1.
            if closest1 - closest0 = 0 then Inl ValueError
            else
              let interpolationFactor = (FL - closest0) / (closest1 - closest0)
              in bindE (idx stepValueList 0) (\<lambda>step0.
                 bindE (idx stepValueList 1) (\<lambda>step1.
                 Inr (py_int (step0 + interpolationFactor * (step1 - step0)), err)))))))"

text \<open>\<^verbatim>\<open>fNum2IrisStep(fNum, FL)\<close>, source lines 324-331.\<close>

definition fNum2IrisStep ::
  "(real \<Rightarrow> real) \<Rightarrow> ((real \<Rightarrow> error + real) \<Rightarrow> real \<Rightarrow> real option) \<Rightarrow> calData
     \<Rightarrow> real \<Rightarrow> real \<Rightarrow> error + (int \<times> status)" where
  "fNum2IrisStep rnd newton cal fNum FL =
    (case cal_AP cal of
       None \<Rightarrow> Inr (0, ERR_NO_CAL)
     | Some ap \<Rightarrow> bindE (FNum2NA fNum) (\<lambda>NA. NA2IrisStep rnd newton cal NA FL))"

section \<open>Derived optical calculations\<close>

definition radians :: "real \<Rightarrow> real" where
  "radians d = d * pi / 180"

definition degrees :: "real \<Rightarrow> real" where
  "degrees r = r * 180 / pi"

text \<open>\<^verbatim>\<open>calcAOV(sensorWd, FL)\<close>, source lines 430-437.\<close>

definition calcAOV :: "calData \<Rightarrow> real \<Rightarrow> real \<Rightarrow> error + (real \<times> status)" where
  "calcAOV cal sensorWd FL =
    (case cal_dist cal of
       None \<Rightarrow> Inr (0, ERR_NO_CAL)
     | Some d \<Rightarrow>
         let semiWd = sensorWd / 2
         in bindE (interpolate (coef d) (cp1 d) FL semiWd) (\<lambda>v.
            let semiAOV = \<bar>v\<bar>;
                AOV = 2 * semiAOV
            in Inr (AOV, OK)))"

text \<open>\<^verbatim>\<open>calcFOV(sensorWd, FL, OD)\<close>, source lines 446-452.\<close>

definition calcFOV :: "calData \<Rightarrow> real \<Rightarrow> real \<Rightarrow> real \<Rightarrow> error + (real \<times> status)" where
  "calcFOV cal sensorWd FL OD =
    (case cal_dist cal of
       None \<Rightarrow> Inr (0, ERR_NO_CAL)
     | Some d \<Rightarrow>
         bindE (calcAOV cal sensorWd FL) (\<lambda>(AOV, err0).
         Inr (2 * OD * tan (radians (AOV / 2)), OK)))"

text \<open>\<^verbatim>\<open>calcDOF(irisStep, FL, OD)\<close>, source lines 461-483. \<^verbatim>\<open>(FL / 1000) / OD\<close> divides
  Python numbers; the later quotients divide by numpy scalars.\<close>

definition calcDOF ::
  "calculations \<Rightarrow> int \<Rightarrow> real \<Rightarrow> real \<Rightarrow> error + (real \<times> status \<times> real \<times> real)" where
  "calcDOF self irisStep FL OD =
    (case cal_iris (calDataOf self) of
       None \<Rightarrow> Inr (0, ERR_NO_CAL, 0, 0)
     | Some ir \<Rightarrow>
         if OD \<ge> INFINITY then Inr (INFINITY, OK, INFINITY, INFINITY)
         else
           bindE (interpolate (coef ir) (cp1 ir) FL (real_of_int irisStep)) (\<lambda>shortDiameter.
           if OD = 0 then Inl ZeroDivisionError
           else
             let magnification = (FL / 1000) / OD
             in if shortDiameter * magnification = 0 then Inl NonFinite
                else if 1 + COC self / (shortDiameter * magnification) = 0 then Inl NonFinite
                else if 1 - COC self / (shortDiameter * magnification) = 0 then Inl NonFinite
                else
                  let ODMin = min (OD / (1 + COC self / (shortDiameter * magnification))) INFINITY;
                      ODMax0 = min (OD / (1 - COC self / (shortDiameter * magnification))) INFINITY;
                      ODMax = (if ODMax0 < 0 then INFINITY else ODMax0);
                      DOF = (if ODMax = INFINITY then INFINITY else ODMax - ODMin)
                  in Inr (DOF, OK, ODMin, ODMax)))"

text \<open>\<^verbatim>\<open>calcFullDOF(irisStep, FL, OD)\<close>, source lines 493-504.\<close>

definition calcFullDOF :: "calculations \<Rightarrow> int \<Rightarrow> real \<Rightarrow> real \<Rightarrow> error + (real \<times> status)" where
  "calcFullDOF self irisStep FL OD =
    (case cal_iris (calDataOf self) of
       None \<Rightarrow> Inr (0, ERR_NO_CAL)
     | Some ir \<Rightarrow>
         bindE (interpolate (coef ir) (cp1 ir) FL (real_of_int irisStep)) (\<lambda>shortDiameter.
         if FL * shortDiameter = 0 then Inl NonFinite
         else
           let DOF = (2 * (OD * 1000)\<^sup>2 * COC self) / (FL * shortDiameter)
           in Inr (DOF / 1000, OK)))"

section \<open>Angle of view and field of view to motor steps\<close>

text \<open>An argument that the source accepts as a number or as a string
  (\<^verbatim>\<open>isinstance(OD, str)\<close>).\<close>

datatype pyarg = Num real | Str string

text \<open>\<^verbatim>\<open>FOV2AOV(FOV, OD)\<close>, source lines 600-605.\<close>

definition FOV2AOV :: "pyarg \<Rightarrow> pyarg \<Rightarrow> real" where
  "FOV2AOV FOV OD =
    (case FOV of
       Str s \<Rightarrow> 0
     | Num fov \<Rightarrow>
        (case OD of
           Str s \<Rightarrow> 0
         | Num od \<Rightarrow>
             if od = 0 \<or> fov = 0 then 0
             else degrees (2 * arctan ((fov / 2) / od))))"

text \<open>The loop \<^verbatim>\<open>for FL in FLList\<close> of \<^verbatim>\<open>AOV2MotorSteps\<close>, carrying
  \<^verbatim>\<open>FLLower\<close> and \<^verbatim>\<open>FLUpper\<close> (\<open>None\<close>, or the pair \<^verbatim>\<open>[FL, AOVMax]\<close>).\<close>

fun AOV2MotorSteps_loop ::
  "calData \<Rightarrow> real \<Rightarrow> real \<Rightarrow> real list \<Rightarrow> (real \<times> real) option \<Rightarrow> (real \<times> real) option
     \<Rightarrow> error + ((real \<times> real) option \<times> (real \<times> real) option)" where
  "AOV2MotorSteps_loop cal IH AOV [] FLLower FLUpper = Inr (FLLower, FLUpper)"
| "AOV2MotorSteps_loop cal IH AOV (FL # rest) FLLower FLUpper =
     (case calcAOV cal IH FL of Inl e \<Rightarrow> Inl e | Inr (AOVMax, err0) \<Rightarrow>
        if AOVMax > AOV then AOV2MotorSteps_loop cal IH AOV rest (Some (FL, AOVMax)) FLUpper
        else if FLUpper = None then
          AOV2MotorSteps_loop cal IH AOV rest FLLower (Some (FL, AOVMax))
        else AOV2MotorSteps_loop cal IH AOV rest FLLower FLUpper)"

text \<open>The part of \<^verbatim>\<open>AOV2MotorSteps\<close> that does not look at the object distance
  (source lines 349-387): the brackets, the interpolated focal length, its range
  status and the zoom step. \<^verbatim>\<open>AOVMax\<close> is a numpy scalar, so the interpolation factor
  divides by a numpy scalar; subscripting a bracket that is still \<^verbatim>\<open>None\<close> raises
  TypeError.\<close>

definition AOV2MotorSteps_zoom ::
  "calData \<Rightarrow> curves \<Rightarrow> real \<Rightarrow> real \<Rightarrow> error + (int \<times> real \<times> status)" where
  "AOV2MotorSteps_zoom cal d AOV IH =
    (let FLList = sort (cp1 d)
     in bindE (AOV2MotorSteps_loop cal IH AOV FLList None None) (\<lambda>(FLLower1, FLUpper1).
        bindE (if FLLower1 = None then
                 bindE (idx FLList 1) (\<lambda>FL.
                 bindE (calcAOV cal IH FL) (\<lambda>(AOVMax, err0).
                 Inr (FLUpper1, Some (FL, AOVMax))))
               else Inr (FLLower1, FLUpper1)) (\<lambda>(FLLower2, FLUpper2).
        bindE (if FLUpper2 = None then
                 bindE (idx_back FLList 2) (\<lambda>FL.
                 bindE (calcAOV cal IH FL) (\<lambda>(AOVMax, err0).
                 Inr (Some (FL, AOVMax), FLLower2)))
               else Inr (FLLower2, FLUpper2)) (\<lambda>(FLLower, FLUpper).
        (case FLLower of None \<Rightarrow> Inl TypeError | Some (FLLower0, AOVLower) \<Rightarrow>
         (case FLUpper of None \<Rightarrow> Inl TypeError | Some (FLUpper0, AOVUpper) \<Rightarrow>
           if AOVUpper - AOVLower = 0 then Inl NonFinite
           else
             let interpolationFactor = (AOV - AOVLower) / (AOVUpper - AOVLower);
                 FLValue = FLLower0 + interpolationFactor * (FLUpper0 - FLLower0)
             in bindE (key (cal_flMin cal)) (\<lambda>flMin.
                bindE (if FLValue < flMin then Inr ERR_RANGE_MIN
                       else bindE (key (cal_flMax cal)) (\<lambda>flMax.
                            Inr (if FLValue > flMax then ERR_RANGE_MAX else OK))) (\<lambda>err.
                bindE (FL2ZoomStep cal FLValue) (\<lambda>(zoomStep, err0).
                Inr (zoomStep, FLValue, err))))))))))"

text \<open>\<^verbatim>\<open>AOV2MotorSteps(AOV, IH, OD, BFL)\<close>, source lines 345-398.\<close>

definition AOV2MotorSteps ::
  "calData \<Rightarrow> real \<Rightarrow> real \<Rightarrow> pyarg \<Rightarrow> int \<Rightarrow> error + (int \<times> int \<times> real \<times> status)" where
  "AOV2MotorSteps cal AOV IH OD BFL =
    (case cal_dist cal of
       None \<Rightarrow> Inr (0, 0, 0, ERR_NO_CAL)
     | Some d \<Rightarrow>
         bindE (AOV2MotorSteps_zoom cal d AOV IH) (\<lambda>(zoomStep, FLValue, err).
         (case OD of
            Str s \<Rightarrow> Inr (0, zoomStep, FLValue, ERR_OD_VALUE)
          | Num od \<Rightarrow>
              if od < 0 then Inr (0, zoomStep, FLValue, ERR_OD_VALUE)
              else
                bindE (OD2FocusStep cal od zoomStep BFL) (\<lambda>(focusStep, err1).
                Inr (focusStep, zoomStep, FLValue, err)))))"

text \<open>\<^verbatim>\<open>FOV2MotorSteps(FOV, IH, OD, BFL)\<close>, source lines 411-417.\<close>

definition FOV2MotorSteps ::
  "calData \<Rightarrow> pyarg \<Rightarrow> real \<Rightarrow> pyarg \<Rightarrow> int \<Rightarrow> error + (int \<times> int \<times> real \<times> status)" where
  "FOV2MotorSteps cal FOV IH OD BFL =
    (case cal_dist cal of
       None \<Rightarrow> Inr (0, 0, 0, ERR_NO_CAL)
     | Some d \<Rightarrow>
         let AOV = FOV2AOV FOV OD
         in if AOV = 0 then Inr (0, 0, 0, ERR_CALC)
            else AOV2MotorSteps cal AOV IH OD BFL)"

section \<open>Setup functions\<close>

text \<open>Methods that assign to the object return their result together with the
  object as the call leaves it, also when the call raises.\<close>

text \<open>\<^verbatim>\<open>loadData(calData)\<close>, source lines 52-56.\<close>

definition loadData :: "calculations \<Rightarrow> calData \<Rightarrow> status \<times> calculations" where
  "loadData self cal =
    (let self1 = self\<lparr>calDataOf := cal\<rparr>
     in if cal = emptyCal then (ERR_NO_CAL, self1) else (OK, self1))"

text \<open>\<^verbatim>\<open>loadCOC(COC)\<close>, source lines 62-67.\<close>

definition loadCOC :: "calculations \<Rightarrow> real \<Rightarrow> status \<times> calculations" where
  "loadCOC self v =
    (let self1 = self\<lparr>COC := v\<rparr>
     in if v < 5 / 1000 \<or> v > 100 / 1000 then (WARN_VALUE, self1) else (OK, self1))"

section \<open>Back focal length correction\<close>

text \<open>The condition \<^verbatim>\<open>if self.BFLCorrectionCoeffs == []:\<close> of source line 521.
  For the Python list it is the comparison of lists. For a numpy array the comparison
  is elementwise:
  \<^item> an array with at most one element broadcasts against the empty list to an empty
    array, whose truth value is \<open>False\<close> (with a warning) before numpy 2.2 and raises
    ValueError from 2.2 on;
  \<^item> an array with two or more elements does not broadcast: the comparison gives
    \<open>False\<close> (with a warning) before numpy 1.25 and raises ValueError from 1.25 on.\<close>

definition coeffs_unset :: "numpy_release \<Rightarrow> coeffs \<Rightarrow> error + bool" where
  "coeffs_unset np cs =
    (case cs of
       PyList l \<Rightarrow> Inr (l = [])
     | NdArray a \<Rightarrow>
         if length a \<le> 1 then (if np = From_2_2 then Inl ValueError else Inr False)
         else (if np = Before_1_25 then Inr False else Inl ValueError))"

text \<open>\<^verbatim>\<open>BFLCorrection(FL, OD)\<close>, source lines 520-526, under the numpy release \<open>np\<close>.\<close>

definition BFLCorrection :: "numpy_release \<Rightarrow> calculations \<Rightarrow> real \<Rightarrow> real \<Rightarrow> error + int" where
  "BFLCorrection np self FL OD =
    bindE (coeffs_unset np (BFLCorrectionCoeffs self)) (\<lambda>unset.
    if unset then Inr 0
    else bindE (polyval FL (case BFLCorrectionCoeffs self of PyList l \<Rightarrow> l | NdArray a \<Rightarrow> a))
           (\<lambda>correctionValue. Inr (py_int correctionValue)))"

text \<open>\<^verbatim>\<open>np.transpose\<close> of the sample list: three rows for a non-empty list, an
  array without rows for the empty list.\<close>

definition transpose_samples :: "(real \<times> int \<times> real) list \<Rightarrow> real list list" where
  "transpose_samples vs =
    (if vs = [] then []
     else [map (\<lambda>(fl, shift, od). fl) vs,
           map (\<lambda>(fl, shift, od). real_of_int shift) vs,
           map (\<lambda>(fl, shift, od). od) vs])"

text \<open>\<^verbatim>\<open>fitBFLCorrection()\<close>, source lines 564-575.\<close>

definition fitBFLCorrection ::
  "(real list \<Rightarrow> real list \<Rightarrow> nat \<Rightarrow> real list) \<Rightarrow> calculations \<Rightarrow> (error + unit) \<times> calculations" where
  "fitBFLCorrection polyfit self =
    (let xy = transpose_samples (BFLCorrectionValues self)
     in if length (BFLCorrectionValues self) = 1 then
          (case idx xy 1 of Inl e \<Rightarrow> (Inl e, self)
           | Inr y \<Rightarrow> (Inr (), self\<lparr>BFLCorrectionCoeffs := NdArray y\<rparr>))
        else if length (BFLCorrectionValues self) \<le> 3 then
          (case idx xy 0 of Inl e \<Rightarrow> (Inl e, self) | Inr x \<Rightarrow>
           (case idx xy 1 of Inl e \<Rightarrow> (Inl e, self)
            | Inr y \<Rightarrow> (Inr (), self\<lparr>BFLCorrectionCoeffs := NdArray (polyfit x y 1)\<rparr>)))
        else
          (case idx xy 0 of Inl e \<Rightarrow> (Inl e, self) | Inr x \<Rightarrow>
           (case idx xy 1 of Inl e \<Rightarrow> (Inl e, self)
            | Inr y \<Rightarrow> (Inr (), self\<lparr>BFLCorrectionCoeffs := NdArray (polyfit x y 2)\<rparr>))))"

text \<open>\<^verbatim>\<open>addBFLCorrection(focusStep, FL, OD)\<close>, source lines 535-544.\<close>

definition addBFLCorrection ::
  "(real list \<Rightarrow> real list \<Rightarrow> nat \<Rightarrow> real list) \<Rightarrow> calculations \<Rightarrow> int \<Rightarrow> real \<Rightarrow> real
     \<Rightarrow> (error + (real \<times> int \<times> real) list) \<times> calculations" where
  "addBFLCorrection polyfit self focusStep FL OD =
    (case ODFL2FocusStep (calDataOf self) OD FL 0 of
       Inl e \<Rightarrow> (Inl e, self)
     | Inr (designFocusStep, err0) \<Rightarrow>
         let self1 = self\<lparr>BFLCorrectionValues :=
                       BFLCorrectionValues self @ [(FL, focusStep - designFocusStep, OD)]\<rparr>
         in (case fitBFLCorrection polyfit self1 of
               (Inl e, self2) \<Rightarrow> (Inl e, self2)
             | (Inr u, self2) \<Rightarrow> (Inr (BFLCorrectionValues self2), self2)))"

text \<open>\<^verbatim>\<open>removeBFLCorrectionByIndex(idx)\<close>, source lines 551-560.\<close>

definition removeBFLCorrectionByIndex ::
  "(real list \<Rightarrow> real list \<Rightarrow> nat \<Rightarrow> real list) \<Rightarrow> calculations \<Rightarrow> int
     \<Rightarrow> (error + (real \<times> int \<times> real) list) \<times> calculations" where
  "removeBFLCorrectionByIndex polyfit self i =
    (if i < 0 \<or> i \<ge> int (length (BFLCorrectionValues self)) then
       (Inr (BFLCorrectionValues self), self)
     else
       let self1 = self\<lparr>BFLCorrectionValues :=
                     take (nat i) (BFLCorrectionValues self)
                       @ drop (Suc (nat i)) (BFLCorrectionValues self)\<rparr>
       in (case fitBFLCorrection polyfit self1 of
             (Inl e, self2) \<Rightarrow> (Inl e, self2)
           | (Inr u, self2) \<Rightarrow> (Inr (BFLCorrectionValues self2), self2)))"

text \<open>A sequence of mutations of the correction set, applied in order; a call
  that raises leaves the object as it was at the raise.\<close>

datatype mutation = AddSample int real real | RemoveByIndex int

fun apply_mutation ::
  "(real list \<Rightarrow> real list \<Rightarrow> nat \<Rightarrow> real list) \<Rightarrow> mutation \<Rightarrow> calculations \<Rightarrow> calculations" where
  "apply_mutation polyfit (AddSample focusStep FL OD) self =
     snd (addBFLCorrection polyfit self focusStep FL OD)"
| "apply_mutation polyfit (RemoveByIndex i) self =
     snd (removeBFLCorrectionByIndex polyfit self i)"

definition apply_mutations ::
  "(real list \<Rightarrow> real list \<Rightarrow> nat \<Rightarrow> real list) \<Rightarrow> mutation list \<Rightarrow> calculations \<Rightarrow> calculations" where
  "apply_mutations polyfit ms self = fold (apply_mutation polyfit) ms self"

section \<open>Example calibration data\<close>

text \<open>A small, well-formed calibration: zoom step \<open>s\<close> gives the focal length
  \<open>4 + s / 100\<close> and the forward polynomial \<open>100 * FL - 400\<close> inverts it.\<close>

definition exCal :: calData where
  "exCal = \<lparr> cal_zoomSteps = Some 1000, cal_focusSteps = Some 2000, cal_irisSteps = Some 100,
      cal_flMin = Some 4, cal_flMax = Some 14, cal_odMin = None, cal_odMax = None,
      cal_fnum = Some 2,
      cal_FL = Some \<lparr> fl_coef = [[-400, 100]], fl_coefInv = [[4, 1 / 100]] \<rparr>,
      cal_tracking = Some \<lparr> cp1 = [0, 1], coef = [[1000, 1 / 10], [500, 1 / 10]] \<rparr>,
      cal_AP = Some \<lparr> cp1 = [4, 14], coef = [[1 / 4, - 2 / 1000], [1 / 5, - 1 / 1000]] \<rparr>,
      cal_dist = Some \<lparr> cp1 = [4, 14], coef = [[0, 10], [0, 3]] \<rparr>,
      cal_iris = Some \<lparr> cp1 = [4, 14], coef = [[10], [10]] \<rparr> \<rparr>"

text \<open>The same calibration with aperture curves that stay at NA \<open>0.005\<close>.\<close>

definition lowNACal :: calData where
  "lowNACal = exCal \<lparr> cal_AP := Some \<lparr> cp1 = [4, 14], coef = [[5 / 1000], [5 / 1000]] \<rparr> \<rparr>"

text \<open>The same calibration with focal-length polynomials that do not invert each
  other: every zoom step gives the focal length \<open>5\<close>, every focal length the step \<open>0\<close>.\<close>

definition mismatchedCal :: calData where
  "mismatchedCal = exCal \<lparr> cal_FL := Some \<lparr> fl_coef = [[0]], fl_coefInv = [[5]] \<rparr> \<rparr>"


text \<open>The example calibration as Python holds it: the literal \<^verbatim>\<open>0.01\<close> of the
  inverse polynomial is the double nearest to \<open>1 / 100\<close>.\<close>

definition doubleCal :: calData where
  "doubleCal = exCal \<lparr> cal_FL :=
      Some \<lparr> fl_coef = [[-400, 100]], fl_coefInv = [[4, round_double (1 / 100)]] \<rparr> \<rparr>"

text \<open>Aperture curves at the focal lengths \<^verbatim>\<open>2.8\<close> and \<^verbatim>\<open>12.5\<close>, as doubles.\<close>

definition roundingAPCal :: calData where
  "roundingAPCal = exCal \<lparr> cal_AP :=
      Some \<lparr> cp1 = [round_double (28 / 10), 25 / 2],
             coef = [[1 / 4, - 2 / 1000], [1 / 5, - 1 / 1000]] \<rparr> \<rparr>"

section \<open>The degree invariant of the correction fit\<close>

text \<open>The length of the fitted coefficient array, when a fit has stored one.\<close>

definition array_length :: "coeffs \<Rightarrow> nat option" where
  "array_length cs = (case cs of PyList l \<Rightarrow> None | NdArray a \<Rightarrow> Some (length a))"

text \<open>The number of fitted coefficients that goes with the number of samples.\<close>

definition fit_degree_ok :: "calculations \<Rightarrow> bool" where
  "fit_degree_ok self =
    (let n = length (BFLCorrectionValues self); k = array_length (BFLCorrectionCoeffs self)
     in (n = 1 \<longrightarrow> k = Some 1) \<and> (n = 2 \<or> n = 3 \<longrightarrow> k = Some 2) \<and> (4 \<le> n \<longrightarrow> k = Some 3))"

section \<open>Verification\<close>

subsection \<open>Auxiliary facts\<close>

lemma polyval_nonempty: "c \<noteq> [] \<Longrightarrow> \<exists>v. polyval x c = Inr v"
  by (cases "rev c") (simp_all add: polyval_def)

lemma polyval_1: "polyval x [a] = Inr a"
  by (simp add: polyval_def)

lemma polyval_2: "polyval x [a, b] = Inr (a + b * x)"
  by (simp add: polyval_def)

lemma polyval_3: "polyval x [a, b, c] = Inr (a + b * x + c * x\<^sup>2)"
  by (simp add: polyval_def power2_eq_square algebra_simps)

lemma list_of_length_1: "length xs = 1 \<Longrightarrow> \<exists>a. xs = [a]"
  by (cases xs) auto

lemma list_of_length_2: "length xs = 2 \<Longrightarrow> \<exists>a b. xs = [a, b]"
  by (cases xs; simp) (metis length_0_conv length_Suc_conv)

lemma list_of_length_3: "length xs = 3 \<Longrightarrow> \<exists>a b c. xs = [a, b, c]"
  by (metis length_0_conv length_Suc_conv numeral_3_eq_3)


lemma argsort_length: "length (argsort ks) = length ks"
  by (simp add: argsort_def)

lemma argsort_set: "set (argsort ks) = {0..<length ks}"
  by (simp add: argsort_def)

lemma index_of_member:
  "v \<in> set xs \<Longrightarrow> \<exists>j. index_of xs v = Inr j \<and> j < length xs"
  by (induction xs) auto

lemma index_of_absent: "v \<notin> set xs \<Longrightarrow> index_of xs v = Inl ValueError"
  by (induction xs) auto

lemma binade_numeral:
  "binade (numeral k) x =
     (if 2 \<le> x then binade (pred_numeral k) (x / 2) + 1
      else if x < 1 then binade (pred_numeral k) (2 * x) - 1
      else 0)"
  by (simp add: numeral_eq_Suc)

lemmas round_double_eval =
  round_double_def binade_numeral pow2_def round_half_even_def Let_def

subsection \<open>The interpolation primitive with one control point\<close>

text \<open>
  Claim C1. With exactly one control point, \<open>interpolate\<close> is meant to return the
  polynomial of the single coefficient set evaluated at \<open>x\<close>. The source evaluates it
  at the control-point target instead: for the coefficients \<open>[0, 1]\<close> (the identity
  polynomial), target \<open>2\<close> and \<open>x = 3\<close> it returns \<open>2\<close>, while the polynomial
  at \<open>x\<close> is \<open>3\<close>.
\<close>

theorem interpolate_single_point_uses_target:
  "interpolate [[0, 1]] [5] 2 3 = Inr 2 \<and> polyval 3 [0, 1] = Inr 3"
  by (simp add: interpolate_def bindE_def idx_def polyval_def)

subsection \<open>Conversions on an empty calibration context\<close>

text \<open>
  Claim C2. On the empty calibration dictionary every conversion function returns,
  for every input and without raising, the status \<open>ERR_NO_CAL\<close> with \<open>0\<close> in every
  numeric position. The root finder, the polynomial fit and the rounding are
  arbitrary.
\<close>

theorem no_cal_data_on_empty_context:
  "zoomStep2FL emptyCal zoomStep = Inr (0, ERR_NO_CAL, 0, 0)
   \<and> focusStep2OD polyfit emptyCal focusStep zoomStep BFL = Inr (0, ERR_NO_CAL, 0, 0)
   \<and> irisStep2NA emptyCal irisStep FL rangeLimit = Inr (0, ERR_NO_CAL, 0, 0)
   \<and> irisStep2FNum emptyCal irisStep FL = Inr (0, ERR_NO_CAL, 0, 0)
   \<and> FL2ZoomStep emptyCal FL = Inr (0, ERR_NO_CAL)
   \<and> OD2FocusStep emptyCal OD zoomStep BFL = Inr (0, ERR_NO_CAL)
   \<and> NA2IrisStep rnd newton emptyCal NA FL = Inr (0, ERR_NO_CAL)
   \<and> fNum2IrisStep rnd newton emptyCal fNum FL = Inr (0, ERR_NO_CAL)
   \<and> AOV2MotorSteps emptyCal AOV IH ODarg BFL = Inr (0, 0, 0, ERR_NO_CAL)
   \<and> FOV2MotorSteps emptyCal FOVarg IH ODarg BFL = Inr (0, 0, 0, ERR_NO_CAL)
   \<and> calcAOV emptyCal sensorWd FL = Inr (0, ERR_NO_CAL)
   \<and> calcFOV emptyCal sensorWd FL OD = Inr (0, ERR_NO_CAL)
   \<and> calcDOF (self\<lparr>calDataOf := emptyCal\<rparr>) irisStep FL OD = Inr (0, ERR_NO_CAL, 0, 0)
   \<and> calcFullDOF (self\<lparr>calDataOf := emptyCal\<rparr>) irisStep FL OD = Inr (0, ERR_NO_CAL)"
  by (simp add: emptyCal_def zoomStep2FL_def zoomStep2FL_with_def focusStep2OD_def
      irisStep2NA_def irisStep2FNum_def FL2ZoomStep_def FL2ZoomStep_with_def OD2FocusStep_def
      NA2IrisStep_def fNum2IrisStep_def AOV2MotorSteps_def FOV2MotorSteps_def calcAOV_def
      calcFOV_def calcDOF_def calcFullDOF_def)

subsection \<open>Removing the only correction sample\<close>

text \<open>
  Claim C6. Removing the only sample of the correction set is meant to leave an empty
  set with no correction. In the source the sample is deleted, then \<open>fitBFLCorrection\<close>
  raises IndexError on the empty transposed array, and the coefficients of the deleted
  sample stay in place: afterwards \<open>BFLCorrection\<close> returns \<open>5\<close> steps before numpy
  2.2 and raises ValueError from numpy 2.2 on, and under no release returns \<open>0\<close>.
\<close>

theorem remove_only_sample_raises:
  "removeBFLCorrectionByIndex polyfit (snd (addBFLCorrection polyfit init 5 8 1000000)) 0
     = (Inl IndexError, init\<lparr>BFLCorrectionCoeffs := NdArray [5]\<rparr>)
   \<and> BFLCorrection np (init\<lparr>BFLCorrectionCoeffs := NdArray [5]\<rparr>) FL OD
     = (if np = From_2_2 then Inl ValueError else Inr 5)"
  by (simp add: removeBFLCorrectionByIndex_def addBFLCorrection_def ODFL2FocusStep_def init_def
      fitBFLCorrection_def transpose_samples_def idx_def BFLCorrection_def coeffs_unset_def
      polyval_def bindE_def py_int_def)

subsection \<open>Zoom step and focal length round trip\<close>

lemma py_int_close: "\<bar>real_of_int (py_int y) - y\<bar> < 1"
  unfolding py_int_def by (simp; linarith)

text \<open>
  Claim C3, as stated, fails: the two focal-length polynomials are independent
  calibration entries and nothing relates them. With \<open>mismatchedCal\<close> the zoom step
  \<open>50\<close> gives the focal length \<open>5\<close> with status \<open>OK\<close>, and the focal length \<open>5\<close>
  gives the zoom step \<open>0\<close>.
\<close>

theorem roundtrip_counterexample:
  "zoomStep2FL mismatchedCal 50 = Inr (5, OK, 4, 14)
   \<and> FL2ZoomStep mismatchedCal 5 = Inr (0, OK)
   \<and> \<not> \<bar>(0::int) - 50\<bar> \<le> 1"
  by code_simp

text \<open>
  Claim C3, amended. Let the calibration hold the focal-length section, \<open>flMin\<close>,
  \<open>flMax\<close> and \<open>zoomSteps\<close>, and let the zoom step \<open>s\<close> lie in \<open>[0, zoomSteps]\<close>.
  Let \<open>FL\<close> be the value of the inverse polynomial at \<open>s\<close> and \<open>y\<close> the value of the
  forward polynomial at \<open>FL\<close>, as the evaluator computes them, with \<open>y\<close> within \<open>eps\<close> of
  \<open>s\<close>. Then \<open>zoomStep2FL\<close> returns \<open>FL\<close> (with status \<open>OK\<close> when \<open>FL\<close> is within
  \<open>[flMin, flMax]\<close>) and \<open>FL2ZoomStep\<close> of it returns a step within \<open>1 + eps\<close> of \<open>s\<close>:
  the truncation costs less than one step and the clamp to \<open>[0, zoomSteps]\<close> never
  moves away from \<open>s\<close>. This holds for every evaluator \<open>pv\<close>, the exact one and the one
  that rounds to double precision.
\<close>

theorem roundtrip_within_truncation:
  fixes pv :: "real \<Rightarrow> real list \<Rightarrow> error + real"
  assumes "cal_FL cal = Some fl"
    and "idx (fl_coefInv fl) 0 = Inr ci"
    and "idx (fl_coef fl) 0 = Inr c"
    and "cal_flMin cal = Some flMin"
    and "cal_flMax cal = Some flMax"
    and "cal_zoomSteps cal = Some zoomStepMax"
    and "0 \<le> s" and "s \<le> zoomStepMax"
    and "pv (real_of_int s) ci = Inr FL"
    and "pv FL c = Inr y"
    and "\<bar>y - real_of_int s\<bar> \<le> eps"
  shows "\<exists>st z err. zoomStep2FL_with pv cal s = Inr (FL, st, flMin, flMax)
           \<and> (flMin \<le> FL \<and> FL \<le> flMax \<longrightarrow> st = OK)
           \<and> FL2ZoomStep_with pv cal FL = Inr (z, err)
           \<and> \<bar>real_of_int z - real_of_int s\<bar> < 1 + eps"
proof -
  define t where "t = py_int y"
  have close: "\<bar>real_of_int t - real_of_int s\<bar> < 1 + eps"
    using py_int_close [of y] assms(11) unfolding t_def by linarith
  have fwd: "zoomStep2FL_with pv cal s =
      Inr (FL, (if FL < flMin then ERR_FL_MIN else if FL > flMax then ERR_FL_MAX else OK),
           flMin, flMax)"
    using assms(1,2,4,5,9) by (simp add: zoomStep2FL_with_def bindE_def key_def)
  have res: "FL2ZoomStep_with pv cal FL =
      (if t < 0 then Inr (0, ERR_RANGE_MIN)
       else if t > zoomStepMax then Inr (zoomStepMax, ERR_RANGE_MAX) else Inr (t, OK))"
    using assms(1,3,6,10) by (simp add: FL2ZoomStep_with_def bindE_def key_def t_def)
  have "\<exists>z err. FL2ZoomStep_with pv cal FL = Inr (z, err)
           \<and> \<bar>real_of_int z - real_of_int s\<bar> < 1 + eps"
  proof (cases "t < 0")
    case True
    then have "\<bar>real_of_int 0 - real_of_int s\<bar> \<le> \<bar>real_of_int t - real_of_int s\<bar>"
      using assms(7) by simp
    with close True res show ?thesis by auto
  next
    case False
    show ?thesis
    proof (cases "t > zoomStepMax")
      case True
      then have "\<bar>real_of_int zoomStepMax - real_of_int s\<bar> \<le> \<bar>real_of_int t - real_of_int s\<bar>"
        using assms(8) by simp
      with close True False res show ?thesis by auto
    next
      case False
      with \<open>\<not> t < 0\<close> close res show ?thesis by auto
    qed
  qed
  with fwd show ?thesis by auto
qed

text \<open>In double precision the example calibration takes the zoom step \<open>2\<close> to the
  focal length \<^verbatim>\<open>4.02\<close> and back to \<^verbatim>\<open>1.9999999999999432\<close>, which truncates to the
  step \<open>1\<close>: within one step of \<open>2\<close>, and not \<open>2\<close>.\<close>

theorem roundtrip_within_truncation_witness:
  "zoomStep2FL_with (polyval_rounded round_double) doubleCal 2
      = Inr (1131529406376837 / 281474976710656, OK, 4, 14)
   \<and> FL2ZoomStep_with (polyval_rounded round_double) doubleCal
        (1131529406376837 / 281474976710656) = Inr (1, OK)
   \<and> (\<exists>st z err. zoomStep2FL_with (polyval_rounded round_double) doubleCal 2
           = Inr (1131529406376837 / 281474976710656, st, 4, 14)
         \<and> FL2ZoomStep_with (polyval_rounded round_double) doubleCal
             (1131529406376837 / 281474976710656) = Inr (z, err)
         \<and> \<bar>real_of_int z - real_of_int 2\<bar> < 1 + 1 / 1000)"
proof -
  have h1: "cal_FL doubleCal
      = Some \<lparr> fl_coef = [[-400, 100]], fl_coefInv = [[4, round_double (1 / 100)]] \<rparr>"
    by (simp add: doubleCal_def)
  have h2: "idx (fl_coefInv \<lparr> fl_coef = [[-400, 100]],
                              fl_coefInv = [[4, round_double (1 / 100)]] \<rparr>) 0
              = Inr [4, round_double (1 / 100)]"
    by (simp add: idx_def)
  have h3: "idx (fl_coef \<lparr> fl_coef = [[-400, 100]],
                           fl_coefInv = [[4, round_double (1 / 100)]] \<rparr>) 0
              = Inr [-400, 100]"
    by (simp add: idx_def)
  have h4: "cal_flMin doubleCal = Some 4" by (simp add: doubleCal_def exCal_def)
  have h5: "cal_flMax doubleCal = Some 14" by (simp add: doubleCal_def exCal_def)
  have h6: "cal_zoomSteps doubleCal = Some 1000" by (simp add: doubleCal_def exCal_def)
  have h9: "polyval_rounded round_double (real_of_int 2) [4, round_double (1 / 100)]
              = Inr (1131529406376837 / 281474976710656)"
    by (simp add: polyval_rounded_def round_double_eval)
  have h10: "polyval_rounded round_double (1131529406376837 / 281474976710656) [-400, 100]
              = Inr (35184372088831 / 17592186044416)"
    by (simp add: polyval_rounded_def round_double_eval)
  have h11: "\<bar>35184372088831 / 17592186044416 - real_of_int 2\<bar> \<le> 1 / 1000"
    by simp
  have fwd: "zoomStep2FL_with (polyval_rounded round_double) doubleCal 2
      = Inr (1131529406376837 / 281474976710656, OK, 4, 14)"
    by (simp add: zoomStep2FL_with_def doubleCal_def exCal_def bindE_def idx_def key_def
        polyval_rounded_def round_double_eval)
  have bwd: "FL2ZoomStep_with (polyval_rounded round_double) doubleCal
        (1131529406376837 / 281474976710656) = Inr (1, OK)"
    by (simp add: FL2ZoomStep_with_def doubleCal_def exCal_def bindE_def idx_def key_def
        py_int_def polyval_rounded_def round_double_eval)
  show ?thesis
    using fwd bwd
      roundtrip_within_truncation [where pv = "polyval_rounded round_double" and s = 2,
        OF h1 h2 h3 h4 h5 h6 _ _ h9 h10 h11]
    by simp
qed

subsection \<open>Range limiting of the numeric aperture\<close>

text \<open>
  Claim C4, as stated, fails: \<open>NAMin\<close> is floored at \<open>0.01\<close> and \<open>NAMax\<close> is capped
  by the curve, and nothing orders the two. With \<open>lowNACal\<close> the curve gives
  \<open>NAMax = 0.005\<close>, below the floor \<open>NAMin = 0.01\<close>; the range-limited call returns
  \<open>NA = 0.01\<close>, which is above the \<open>NAMax\<close> it returns.
\<close>

theorem irisStep2NA_range_counterexample:
  "irisStep2NA lowNACal 0 4 True = Inr (1 / 100, ERR_NA_MIN, 1 / 100, 5 / 1000)
   \<and> \<not> (1 / 100 \<le> (5 / 1000 :: real))"
  by (simp add: irisStep2NA_def lowNACal_def exCal_def interpolate_def argsort_def upt_rec
      bindE_def idx_def polyval_def key_def Let_def)

text \<open>
  Claim C4, amended. With \<open>rangeLimit = True\<close>, whenever \<open>irisStep2NA\<close> returns and
  the bounds it returns satisfy \<open>NAMin \<le> NAMax\<close>, the returned NA lies in
  \<open>[NAMin, NAMax]\<close>. With \<open>rangeLimit = False\<close> the returned NA is the raw
  interpolated value, with status \<open>ERR_NA_MAX\<close> when it is above \<open>NAMax\<close>,
  \<open>ERR_NA_MIN\<close> when it is below \<open>NAMin\<close>, and \<open>OK\<close> otherwise.
\<close>

theorem irisStep2NA_range:
  "(irisStep2NA cal irisStep FL True = Inr (NA, err, NAMin, NAMax) \<longrightarrow> NAMin \<le> NAMax
      \<longrightarrow> NAMin \<le> NA \<and> NA \<le> NAMax)
   \<and> (irisStep2NA cal irisStep FL False = Inr (NA', err', NAMin', NAMax') \<longrightarrow> cal_AP cal = Some ap
      \<longrightarrow> interpolate (coef ap) (cp1 ap) FL (real_of_int irisStep) = Inr NA'
          \<and> err' = (if NA' > NAMax' then ERR_NA_MAX
                    else if NA' < NAMin' then ERR_NA_MIN else OK))"
  by (auto simp: irisStep2NA_def bindE_def key_def Let_def
      split: option.splits sum.splits if_splits)

theorem irisStep2NA_range_witness:
  "irisStep2NA exCal 200 4 True = Inr (1 / 20, ERR_NA_MIN, 1 / 20, 1 / 4)
   \<and> (1 / 20 :: real) \<le> 1 / 4
   \<and> irisStep2NA exCal 200 4 False = Inr (- 3 / 20, ERR_NA_MIN, 1 / 20, 1 / 4)
   \<and> interpolate [[1 / 4, - 2 / 1000], [1 / 5, - 1 / 1000]] [4, 14] 4 (real_of_int 200)
        = Inr (- 3 / 20)"
proof -
  have t: "irisStep2NA exCal 200 4 True = Inr (1 / 20, ERR_NA_MIN, 1 / 20, 1 / 4)"
    by code_simp
  have f: "irisStep2NA exCal 200 4 False = Inr (- 3 / 20, ERR_NA_MIN, 1 / 20, 1 / 4)"
    by code_simp
  have a: "cal_AP exCal
      = Some \<lparr> cp1 = [4, 14], coef = [[1 / 4, - 2 / 1000], [1 / 5, - 1 / 1000]] \<rparr>"
    by (simp add: exCal_def)
  show ?thesis
    using t f a
      irisStep2NA_range [of exCal 200 4 "1 / 20" ERR_NA_MIN "1 / 20" "1 / 4" "- 3 / 20"
        ERR_NA_MIN "1 / 20" "1 / 4" "\<lparr> cp1 = [4, 14], coef = [[1 / 4, - 2 / 1000], [1 / 5, - 1 / 1000]] \<rparr>"]
    by auto
qed

subsection \<open>Loading a circle of confusion\<close>

text \<open>
  Claim C8. \<open>loadCOC v\<close> returns \<open>WARN_VALUE\<close> exactly when \<open>v\<close> is below \<open>0.005\<close> or
  above \<open>0.100\<close> and \<open>OK\<close> otherwise, and stores \<open>v\<close> in both cases. The depth of
  field computed afterwards is the formula of \<open>calcDOF\<close> (and of \<open>calcFullDOF\<close>) with
  \<open>v\<close> as the circle of confusion, for an aperture diameter \<open>d\<close> read from the iris
  curves and denominators that are not zero.
\<close>

theorem loadCOC_value_used:
  "loadCOC self v
      = ((if v < 5 / 1000 \<or> v > 100 / 1000 then WARN_VALUE else OK), self\<lparr>COC := v\<rparr>)
   \<and> (cal_iris (calDataOf self) = Some ir
        \<longrightarrow> interpolate (coef ir) (cp1 ir) FL (real_of_int irisStep) = Inr d
        \<longrightarrow> OD < INFINITY \<longrightarrow> OD \<noteq> 0 \<longrightarrow> d * (FL / 1000 / OD) \<noteq> 0
        \<longrightarrow> 1 + v / (d * (FL / 1000 / OD)) \<noteq> 0 \<longrightarrow> 1 - v / (d * (FL / 1000 / OD)) \<noteq> 0
        \<longrightarrow> calcDOF (snd (loadCOC self v)) irisStep FL OD =
              (let ODMin = min (OD / (1 + v / (d * (FL / 1000 / OD)))) INFINITY;
                   ODMax0 = min (OD / (1 - v / (d * (FL / 1000 / OD)))) INFINITY;
                   ODMax = (if ODMax0 < 0 then INFINITY else ODMax0)
               in Inr ((if ODMax = INFINITY then INFINITY else ODMax - ODMin), OK, ODMin, ODMax)))
   \<and> (cal_iris (calDataOf self) = Some ir
        \<longrightarrow> interpolate (coef ir) (cp1 ir) FL (real_of_int irisStep) = Inr d
        \<longrightarrow> FL * d \<noteq> 0
        \<longrightarrow> calcFullDOF (snd (loadCOC self v)) irisStep FL OD =
              Inr (2 * (OD * 1000)\<^sup>2 * v / (FL * d) / 1000, OK))"
  by (simp add: loadCOC_def calcDOF_def calcFullDOF_def bindE_def Let_def)

text \<open>Loading \<open>0.15\<close> warns, and the depth of field at iris step \<open>0\<close>, focal length
  \<open>50\<close> and object distance \<open>1\<close> is computed with \<open>0.15\<close>; the default \<open>0.020\<close>
  gives other values.\<close>

theorem loadCOC_value_used_witness:
  "loadCOC (init\<lparr>calDataOf := exCal\<rparr>) (15 / 100)
      = (WARN_VALUE, init\<lparr>calDataOf := exCal, COC := 15 / 100\<rparr>)
   \<and> calcDOF (snd (loadCOC (init\<lparr>calDataOf := exCal\<rparr>) (15 / 100))) 0 50 1
      = Inr (60 / 91, OK, 10 / 13, 10 / 7)
   \<and> calcDOF (init\<lparr>calDataOf := exCal\<rparr>) 0 50 1 = Inr (25 / 312, OK, 25 / 26, 25 / 24)
   \<and> calcFullDOF (snd (loadCOC (init\<lparr>calDataOf := exCal\<rparr>) (15 / 100))) 0 50 1
      = Inr (3 / 5, OK)"
proof -
  have i: "cal_iris (calDataOf (init\<lparr>calDataOf := exCal\<rparr>))
      = Some \<lparr> cp1 = [4, 14], coef = [[10], [10]] \<rparr>"
    by (simp add: exCal_def)
  have d: "interpolate (coef \<lparr> cp1 = [4, 14], coef = [[10], [10]] \<rparr>)
             (cp1 \<lparr> cp1 = [4, 14], coef = [[10], [10]] \<rparr>) 50 (real_of_int 0) = Inr 10"
    by (simp add: interpolate_def argsort_def upt_rec bindE_def idx_def polyval_def Let_def)
  have e: "calcDOF (init\<lparr>calDataOf := exCal\<rparr>) 0 50 1 = Inr (25 / 312, OK, 25 / 26, 25 / 24)"
    using d by (simp add: calcDOF_def exCal_def init_def COC_DEFAULT_def INFINITY_def bindE_def
        Let_def)
  show ?thesis
    using loadCOC_value_used [of "init\<lparr>calDataOf := exCal\<rparr>" "15 / 100"
        "\<lparr> cp1 = [4, 14], coef = [[10], [10]] \<rparr>" 50 0 10 1] i d e
    by (auto simp: INFINITY_def Let_def)
qed

subsection \<open>Degree of the fitted correction\<close>

lemma fit_degree:
  assumes "\<And>xs ys d. length (polyfit xs ys d) = d + 1"
  shows "fit_degree_ok (snd (fitBFLCorrection polyfit self))"
proof (cases "BFLCorrectionValues self = []")
  case True
  then show ?thesis
    by (simp add: fitBFLCorrection_def fit_degree_ok_def transpose_samples_def idx_def)
next
  case False
  then show ?thesis using assms
    by (auto simp: fitBFLCorrection_def fit_degree_ok_def array_length_def
        transpose_samples_def idx_def Let_def)
qed

lemma apply_mutation_degree:
  assumes "\<And>xs ys d. length (polyfit xs ys d) = d + 1" and "fit_degree_ok self"
  shows "fit_degree_ok (apply_mutation polyfit m self)"
proof (cases m)
  case (AddSample focusStep FL OD)
  show ?thesis
  proof (cases "ODFL2FocusStep (calDataOf self) OD FL 0")
    case (Inl e)
    then show ?thesis using assms(2) AddSample by (simp add: addBFLCorrection_def)
  next
    case (Inr r)
    obtain d e where r: "r = (d, e)" by (cases r)
    have "apply_mutation polyfit m self = snd (fitBFLCorrection polyfit
        (self\<lparr>BFLCorrectionValues := BFLCorrectionValues self @ [(FL, focusStep - d, OD)]\<rparr>))"
      using Inr r AddSample
      by (simp add: addBFLCorrection_def Let_def split: prod.splits sum.splits)
    then show ?thesis using fit_degree [OF assms(1)] by simp
  qed
next
  case (RemoveByIndex i)
  show ?thesis
  proof (cases "i < 0 \<or> i \<ge> int (length (BFLCorrectionValues self))")
    case True
    then show ?thesis using assms(2) RemoveByIndex
      by (simp add: removeBFLCorrectionByIndex_def)
  next
    case False
    then have "apply_mutation polyfit m self = snd (fitBFLCorrection polyfit
        (self\<lparr>BFLCorrectionValues := take (nat i) (BFLCorrectionValues self)
                       @ drop (Suc (nat i)) (BFLCorrectionValues self)\<rparr>))"
      using RemoveByIndex
      by (simp add: removeBFLCorrectionByIndex_def Let_def split: prod.splits sum.splits)
    then show ?thesis using fit_degree [OF assms(1)] by simp
  qed
qed

lemma apply_mutations_degree:
  assumes "\<And>xs ys d. length (polyfit xs ys d) = d + 1"
  shows "fit_degree_ok self \<Longrightarrow> fit_degree_ok (apply_mutations polyfit ms self)"
  unfolding apply_mutations_def
  by (induction ms arbitrary: self) (simp_all add: apply_mutation_degree [OF assms])

lemma array_of_length:
  "array_length cs = Some k \<Longrightarrow> \<exists>a. cs = NdArray a \<and> length a = k"
  by (cases cs) (simp_all add: array_length_def)

text \<open>
  The fit itself follows the degree policy. Start from a fresh object with any
  calibration and apply any sequence of \<open>addBFLCorrection\<close> and
  \<open>removeBFLCorrectionByIndex\<close> calls, including calls that raise, with a library fit
  that returns \<open>deg + 1\<close> coefficients. Then one stored sample goes with one fitted
  coefficient, two or three samples with two, four or more with three; and before
  numpy 1.25, where the comparison of line 521 does not raise, \<open>BFLCorrection\<close>
  returns the fitted polynomial truncated by \<^verbatim>\<open>int()\<close>.
\<close>

lemma fitted_coefficients_follow_policy:
  fixes polyfit :: "real list \<Rightarrow> real list \<Rightarrow> nat \<Rightarrow> real list"
    and ms :: "mutation list" and cal :: calData
  assumes "\<And>xs ys d. length (polyfit xs ys d) = d + 1"
  defines "self \<equiv> apply_mutations polyfit ms (init\<lparr>calDataOf := cal\<rparr>)"
  defines "n \<equiv> length (BFLCorrectionValues self)"
  shows "(n = 1 \<longrightarrow> (\<exists>a. BFLCorrectionCoeffs self = NdArray [a]
                     \<and> (\<forall>FL OD. BFLCorrection Before_1_25 self FL OD = Inr (py_int a))))
       \<and> (n = 2 \<or> n = 3 \<longrightarrow> (\<exists>a b. BFLCorrectionCoeffs self = NdArray [a, b]
                     \<and> (\<forall>FL OD. BFLCorrection Before_1_25 self FL OD
                                   = Inr (py_int (a + b * FL)))))
       \<and> (4 \<le> n \<longrightarrow> (\<exists>a b c. BFLCorrectionCoeffs self = NdArray [a, b, c]
                     \<and> (\<forall>FL OD. BFLCorrection Before_1_25 self FL OD
                                   = Inr (py_int (a + b * FL + c * FL\<^sup>2)))))"
proof -
  have "fit_degree_ok (init\<lparr>calDataOf := cal\<rparr>)"
    by (simp add: fit_degree_ok_def init_def)
  then have ok: "fit_degree_ok self"
    unfolding self_def by (rule apply_mutations_degree [OF assms(1)])
  show ?thesis
  proof (intro conjI impI)
    assume "n = 1"
    with ok have "array_length (BFLCorrectionCoeffs self) = Some 1"
      by (simp add: fit_degree_ok_def Let_def n_def)
    then obtain a where "BFLCorrectionCoeffs self = NdArray [a]"
      using array_of_length list_of_length_1 by blast
    then show "\<exists>a. BFLCorrectionCoeffs self = NdArray [a]
                 \<and> (\<forall>FL OD. BFLCorrection Before_1_25 self FL OD = Inr (py_int a))"
      by (simp add: BFLCorrection_def coeffs_unset_def polyval_1 bindE_def)
  next
    assume "n = 2 \<or> n = 3"
    with ok have "array_length (BFLCorrectionCoeffs self) = Some 2"
      by (auto simp: fit_degree_ok_def Let_def n_def)
    then obtain a b where "BFLCorrectionCoeffs self = NdArray [a, b]"
      using array_of_length list_of_length_2 by blast
    then show "\<exists>a b. BFLCorrectionCoeffs self = NdArray [a, b]
                 \<and> (\<forall>FL OD. BFLCorrection Before_1_25 self FL OD = Inr (py_int (a + b * FL)))"
      by (simp add: BFLCorrection_def coeffs_unset_def polyval_2 bindE_def)
  next
    assume "4 \<le> n"
    with ok have "array_length (BFLCorrectionCoeffs self) = Some 3"
      by (simp add: fit_degree_ok_def Let_def n_def)
    then obtain a b c where "BFLCorrectionCoeffs self = NdArray [a, b, c]"
      using array_of_length list_of_length_3 by blast
    then show "\<exists>a b c. BFLCorrectionCoeffs self = NdArray [a, b, c]
                 \<and> (\<forall>FL OD. BFLCorrection Before_1_25 self FL OD
                               = Inr (py_int (a + b * FL + c * FL\<^sup>2)))"
      by (simp add: BFLCorrection_def coeffs_unset_def polyval_3 bindE_def)
  qed
qed

text \<open>
  Claim C5. After one sample the correction is meant to be the same constant for
  every focal length, after two or three samples affine, after four or more at most
  quadratic. The fitted coefficients follow that policy, but \<open>BFLCorrection\<close> tests
  them with \<^verbatim>\<open>== []\<close>, and after a fit they are a numpy array: from numpy 2.2 on the
  test raises ValueError after every fit, for one sample (with the fitted coefficient
  \<open>5\<close>) as for two, and from numpy 1.25 on it raises for every fit of two or more
  coefficients. No correction value is returned then.
\<close>

theorem BFLCorrection_raises_after_fit:
  "BFLCorrectionCoeffs (snd (addBFLCorrection polyfit init 5 8 1000000)) = NdArray [5]
   \<and> BFLCorrection From_2_2 (snd (addBFLCorrection polyfit init 5 8 1000000)) FL OD
       = Inl ValueError
   \<and> BFLCorrection From_2_2
        (apply_mutations polyfit [AddSample 5 8 1000000, AddSample 9 10 1000000] init) FL OD
       = Inl ValueError
   \<and> BFLCorrection From_1_25 (self\<lparr>BFLCorrectionCoeffs := NdArray [a, b]\<rparr>) FL OD
       = Inl ValueError"
  by (simp add: apply_mutations_def addBFLCorrection_def ODFL2FocusStep_def init_def
      fitBFLCorrection_def transpose_samples_def idx_def BFLCorrection_def coeffs_unset_def
      bindE_def)

subsection \<open>Guards and fit of the focus step to object distance conversion\<close>




subsection \<open>Object distance zero\<close>

text \<open>
  Claim C9. With the tracking section loaded, \<open>OD2FocusStep\<close> raises
  ZeroDivisionError for the object distance \<open>0\<close>, whatever the other inputs; for an
  object distance other than \<open>0\<close> the inversion \<open>1000 / OD\<close> goes through, and the
  call returns whenever the interpolation does and \<open>focusSteps\<close> is present. The
  callers inherit the precondition: \<open>ODFL2FocusStep\<close> raises ZeroDivisionError at
  \<open>0\<close> once its zoom step is computed, and \<open>AOV2MotorSteps\<close> raises it at \<open>0\<close>
  wherever the same call with the focus calculation skipped returns.
\<close>

theorem OD2FocusStep_zero_distance:
  assumes "cal_tracking cal = Some tr"
  shows "OD2FocusStep cal 0 zoomStep BFL = Inl ZeroDivisionError
       \<and> (OD \<noteq> 0 \<longrightarrow> interpolate (coef tr) (cp1 tr) (1000 / OD) (real_of_int zoomStep) = Inr v
            \<longrightarrow> cal_focusSteps cal = Some focusStepMax
            \<longrightarrow> (\<exists>focusStep err. OD2FocusStep cal OD zoomStep BFL = Inr (focusStep, err)))
       \<and> (FL2ZoomStep cal FL = Inr (zoomStep, err0)
            \<longrightarrow> ODFL2FocusStep cal 0 FL BFL = Inl ZeroDivisionError)
       \<and> (cal_dist cal \<noteq> None \<longrightarrow> AOV2MotorSteps cal AOV IH (Str s) BFL = Inr r
            \<longrightarrow> AOV2MotorSteps cal AOV IH (Num 0) BFL = Inl ZeroDivisionError)
       \<and> (cal_dist cal \<noteq> None \<longrightarrow> (\<exists>e. AOV2MotorSteps cal AOV IH (Num 0) BFL = Inl e))"
proof -
  have z: "\<And>zs b. OD2FocusStep cal 0 zs b = Inl ZeroDivisionError"
    using assms by (simp add: OD2FocusStep_def)
  have ne: "cal \<noteq> emptyCal" using assms by (auto simp: emptyCal_def)
  have p2: "OD \<noteq> 0 \<longrightarrow> interpolate (coef tr) (cp1 tr) (1000 / OD) (real_of_int zoomStep) = Inr v
            \<longrightarrow> cal_focusSteps cal = Some focusStepMax
            \<longrightarrow> (\<exists>focusStep err. OD2FocusStep cal OD zoomStep BFL = Inr (focusStep, err))"
    using assms by (simp add: OD2FocusStep_def bindE_def key_def Let_def)
  have p3: "FL2ZoomStep cal FL = Inr (zoomStep, err0)
            \<longrightarrow> ODFL2FocusStep cal 0 FL BFL = Inl ZeroDivisionError"
    using ne z by (simp add: ODFL2FocusStep_def bindE_def)
  have p4: "cal_dist cal \<noteq> None \<longrightarrow> AOV2MotorSteps cal AOV IH (Str s) BFL = Inr r
            \<longrightarrow> AOV2MotorSteps cal AOV IH (Num 0) BFL = Inl ZeroDivisionError"
    using z by (auto simp: AOV2MotorSteps_def bindE_def split: option.splits sum.splits)
  have p5: "cal_dist cal \<noteq> None \<longrightarrow> (\<exists>e. AOV2MotorSteps cal AOV IH (Num 0) BFL = Inl e)"
    using z by (auto simp: AOV2MotorSteps_def bindE_def split: option.splits sum.splits)
  show ?thesis using z p2 p3 p4 p5 by blast
qed

theorem OD2FocusStep_zero_distance_witness:
  "OD2FocusStep exCal 0 400 0 = Inl ZeroDivisionError
   \<and> (\<exists>focusStep err. OD2FocusStep exCal 2000 400 0 = Inr (focusStep, err))
   \<and> ODFL2FocusStep exCal 0 8 0 = Inl ZeroDivisionError
   \<and> AOV2MotorSteps exCal 50 6 (Str ''skip'') 0 = Inr (0, 238, 134 / 21, ERR_OD_VALUE)
   \<and> AOV2MotorSteps exCal 50 6 (Num 0) 0 = Inl ZeroDivisionError"
proof -
  have t: "cal_tracking exCal
      = Some \<lparr> cp1 = [0, 1], coef = [[1000, 1 / 10], [500, 1 / 10]] \<rparr>"
    by (simp add: exCal_def)
  have i: "interpolate (coef \<lparr> cp1 = [0, 1], coef = [[1000, 1 / 10], [500, 1 / 10]] \<rparr>)
      (cp1 \<lparr> cp1 = [0, 1], coef = [[1000, 1 / 10], [500, 1 / 10]] \<rparr>)
      (1000 / 2000) (real_of_int 400) = Inr 790"
    by (simp add: interpolate_def argsort_def upt_rec bindE_def idx_def polyval_def Let_def)
  have m: "cal_focusSteps exCal = Some 2000" by (simp add: exCal_def)
  have f: "FL2ZoomStep exCal 8 = Inr (400, OK)" by code_simp
  have d: "cal_dist exCal \<noteq> None" by (simp add: exCal_def)
  have s: "AOV2MotorSteps exCal 50 6 (Str ''skip'') 0 = Inr (0, 238, 134 / 21, ERR_OD_VALUE)"
    by code_simp
  show ?thesis
    using OD2FocusStep_zero_distance [OF t, where zoomStep = 400 and BFL = 0 and OD = 2000
        and v = 790 and focusStepMax = 2000 and FL = 8 and ?err0.0 = OK and AOV = 50
        and IH = 6 and s = "''skip''" and r = "(0, 238, 134 / 21, ERR_OD_VALUE)"] i m f d s
    by auto
qed

subsection \<open>Preconditions of the numeric aperture to iris step conversion\<close>

lemma closest_indices:
  assumes "2 \<le> length ks"
  shows "\<exists>i j. sort (take 2 (argsort ks)) = [i, j] \<and> i < length ks \<and> j < length ks"
proof -
  have "length (sort (take 2 (argsort ks))) = 2"
    using assms by (simp add: argsort_length)
  then obtain i j where ij: "sort (take 2 (argsort ks)) = [i, j]"
    using list_of_length_2 by blast
  have "set (sort (take 2 (argsort ks))) \<subseteq> {0..<length ks}"
    using set_take_subset [of 2 "argsort ks"] by (simp add: argsort_set)
  with ij show ?thesis by auto
qed

lemma closestFL_two:
  assumes "2 \<le> length cp"
  shows "\<exists>i j. i < length cp \<and> j < length cp
           \<and> closestFL rnd cp FL = [rnd (rnd (cp ! i - FL) + FL), rnd (rnd (cp ! j - FL) + FL)]"
proof -
  obtain i j where ij:
      "sort (take 2 (argsort (map abs (map (\<lambda>c. rnd (c - FL)) cp)))) = [i, j]"
      "i < length cp" "j < length cp"
    using closest_indices [of "map abs (map (\<lambda>c. rnd (c - FL)) cp)"] assms by auto
  then show ?thesis by (auto simp: closestFL_def Let_def)
qed

lemma closestFL_short: "length cp < 2 \<Longrightarrow> length (closestFL rnd cp FL) < 2"
  by (simp add: closestFL_def Let_def argsort_length)

lemma NA2IrisStep_loop_total:
  assumes "length (cp1 ap) \<le> length (coef ap)" and "\<forall>c\<in>set (coef ap). c \<noteq> []"
    and "cal_irisSteps cal = Some k"
  shows "\<forall>f\<in>set fs. f \<in> set (cp1 ap) \<Longrightarrow>
     \<exists>steps err'. NA2IrisStep_loop newton cal ap NA fs err stepValueList = Inr (steps, err')
        \<and> length steps = length stepValueList + length fs"
proof (induction fs arbitrary: err stepValueList)
  case Nil
  then show ?case by simp
next
  case (Cons f fs)
  then obtain j where j: "index_of (cp1 ap) f = Inr j" "j < length (cp1 ap)"
    using index_of_member [of f "cp1 ap"] by auto
  then have c: "idx (coef ap) j = Inr (coef ap ! j)" "coef ap ! j \<noteq> []"
    using assms(1,2) by (simp_all add: idx_def)
  then obtain NAMax where m: "polyval 0 (coef ap ! j) = Inr NAMax"
    using polyval_nonempty by blast
  have rest: "\<forall>f\<in>set fs. f \<in> set (cp1 ap)" using Cons.prems by simp
  show ?case
  proof (cases "NA < NAMax")
    case True
    show ?thesis
    proof (cases "newton (merit (coef ap ! j) NA) 20")
      case None
      then show ?thesis
        using Cons.IH [OF rest, of ERR_NA_MIN "stepValueList @ [real_of_int k]"]
          j c m True assms(3)
        by (simp add: key_def)
    next
      case (Some stepValue)
      then show ?thesis
        using Cons.IH [OF rest, of err "stepValueList @ [stepValue]"] j c m True
        by simp
    qed
  next
    case False
    then show ?thesis
      using Cons.IH [OF rest, of ERR_NA_MAX "stepValueList @ [0]"] j c m by simp
  qed
qed

text \<open>
  What holds for every rounding. With the aperture section loaded, \<open>NA2IrisStep\<close>
  raises when the section has fewer than two control points. With two or more it
  selects two values \<open>a\<close> and \<open>b\<close>, each a control point minus and plus the focal
  length; it raises when they are equal, it raises ValueError when \<open>a\<close> is not an entry
  of the control-point list, and when both are entries and differ it returns, given
  parallel lists of non-empty coefficient sets and the \<open>irisSteps\<close> entry. The
  interpolation primitive returns for a single control point.
\<close>

lemma NA2IrisStep_preconditions:
  assumes "cal_AP cal = Some ap"
  shows "(length (cp1 ap) < 2 \<longrightarrow> (\<exists>e. NA2IrisStep rnd newton cal NA FL = Inl e))
       \<and> (2 \<le> length (cp1 ap) \<longrightarrow>
            (\<exists>a b. closestFL rnd (cp1 ap) FL = [a, b]
               \<and> (a = b \<longrightarrow> (\<exists>e. NA2IrisStep rnd newton cal NA FL = Inl e))
               \<and> (a \<notin> set (cp1 ap) \<longrightarrow> NA2IrisStep rnd newton cal NA FL = Inl ValueError)
               \<and> (a \<noteq> b \<longrightarrow> a \<in> set (cp1 ap) \<longrightarrow> b \<in> set (cp1 ap)
                    \<longrightarrow> length (cp1 ap) \<le> length (coef ap)
                    \<longrightarrow> (\<forall>c\<in>set (coef ap). c \<noteq> []) \<longrightarrow> cal_irisSteps cal \<noteq> None
                    \<longrightarrow> (\<exists>irisStep err.
                           NA2IrisStep rnd newton cal NA FL = Inr (irisStep, err)))))
       \<and> (length (cp1 ap) = 1 \<longrightarrow> length (coef ap) = 1 \<longrightarrow> (\<forall>c\<in>set (coef ap). c \<noteq> [])
            \<longrightarrow> (\<exists>v. interpolate (coef ap) (cp1 ap) FL x = Inr v))"
proof (intro conjI impI)
  assume "length (cp1 ap) < 2"
  then have short: "length (closestFL rnd (cp1 ap) FL) < 2" by (rule closestFL_short)
  show "\<exists>e. NA2IrisStep rnd newton cal NA FL = Inl e"
  proof (cases "NA2IrisStep_loop newton cal ap NA (closestFL rnd (cp1 ap) FL) OK []")
    case (Inl e)
    then show ?thesis using assms by (simp add: NA2IrisStep_def bindE_def)
  next
    case (Inr r)
    then show ?thesis using assms short
      by (auto simp: NA2IrisStep_def bindE_def idx_def Let_def split: prod.splits)
  qed
next
  assume two: "2 \<le> length (cp1 ap)"
  then obtain a b where ab: "closestFL rnd (cp1 ap) FL = [a, b]"
    using closestFL_two [of "cp1 ap" rnd FL] by blast
  have eq: "a = b \<Longrightarrow> \<exists>e. NA2IrisStep rnd newton cal NA FL = Inl e"
  proof (cases "NA2IrisStep_loop newton cal ap NA (closestFL rnd (cp1 ap) FL) OK []")
    case (Inl e)
    then show ?thesis using assms by (simp add: NA2IrisStep_def bindE_def)
  next
    case (Inr r)
    assume "a = b"
    then show ?thesis using assms ab Inr
      by (auto simp: NA2IrisStep_def bindE_def idx_def Let_def split: prod.splits)
  qed
  have absent: "a \<notin> set (cp1 ap) \<Longrightarrow> NA2IrisStep rnd newton cal NA FL = Inl ValueError"
    using assms ab by (simp add: NA2IrisStep_def bindE_def index_of_absent)
  have neq: "\<exists>irisStep err. NA2IrisStep rnd newton cal NA FL = Inr (irisStep, err)"
    if d: "a \<noteq> b" and mem: "a \<in> set (cp1 ap)" "b \<in> set (cp1 ap)"
      and w: "length (cp1 ap) \<le> length (coef ap)"
      "\<forall>c\<in>set (coef ap). c \<noteq> []" "cal_irisSteps cal \<noteq> None"
  proof -
    obtain k where k: "cal_irisSteps cal = Some k" using w(3) by blast
    have mem': "\<forall>f\<in>set (closestFL rnd (cp1 ap) FL). f \<in> set (cp1 ap)"
      using ab mem by simp
    obtain steps err' where l:
      "NA2IrisStep_loop newton cal ap NA (closestFL rnd (cp1 ap) FL) OK [] = Inr (steps, err')"
      "length steps = 2"
      using NA2IrisStep_loop_total [OF w(1,2) k mem', of newton NA OK "[]"] ab by auto
    then obtain s0 s1 where "steps = [s0, s1]" using list_of_length_2 by blast
    then show ?thesis using assms ab l(1) d
      by (simp add: NA2IrisStep_def bindE_def idx_def Let_def)
  qed
  show "\<exists>a b. closestFL rnd (cp1 ap) FL = [a, b]
          \<and> (a = b \<longrightarrow> (\<exists>e. NA2IrisStep rnd newton cal NA FL = Inl e))
          \<and> (a \<notin> set (cp1 ap) \<longrightarrow> NA2IrisStep rnd newton cal NA FL = Inl ValueError)
          \<and> (a \<noteq> b \<longrightarrow> a \<in> set (cp1 ap) \<longrightarrow> b \<in> set (cp1 ap)
               \<longrightarrow> length (cp1 ap) \<le> length (coef ap)
               \<longrightarrow> (\<forall>c\<in>set (coef ap). c \<noteq> []) \<longrightarrow> cal_irisSteps cal \<noteq> None
               \<longrightarrow> (\<exists>irisStep err. NA2IrisStep rnd newton cal NA FL = Inr (irisStep, err)))"
    using ab eq absent neq by (intro exI [of _ a] exI [of _ b]) auto
next
  assume "length (cp1 ap) = 1" "length (coef ap) = 1" "\<forall>c\<in>set (coef ap). c \<noteq> []"
  then have "idx (coef ap) 0 = Inr (coef ap ! 0)" "coef ap ! 0 \<noteq> []"
    by (simp_all add: idx_def)
  then show "\<exists>v. interpolate (coef ap) (cp1 ap) FL x = Inr v"
    using \<open>length (cp1 ap) = 1\<close> polyval_nonempty [of "coef ap ! 0" FL]
    by (simp add: interpolate_def bindE_def)
qed

text \<open>
  Claim C10. With two or more control points whose two selected values differ,
  \<open>NA2IrisStep\<close> is meant to be total. The source looks each selected focal length up
  with \<^verbatim>\<open>cp1.index(f)\<close> after subtracting and adding the target focal length, and in
  double precision that does not give the control point back: for the control points
  \<^verbatim>\<open>2.8\<close> and \<^verbatim>\<open>12.5\<close> and the focal length \<^verbatim>\<open>10.8\<close> the first selected value is
  \<^verbatim>\<open>2.8000000000000007\<close>, which is not in the list, and the call raises ValueError for
  every numeric aperture and every root finder.
\<close>

theorem NA2IrisStep_lookup_raises:
  "round_double (28 / 10) = 3152519739159347 / 1125899906842624
   \<and> closestFL round_double [round_double (28 / 10), 25 / 2] (round_double (108 / 10))
       = [788129934789837 / 281474976710656, 25 / 2]
   \<and> NA2IrisStep round_double newton roundingAPCal NA (round_double (108 / 10))
       = Inl ValueError"
proof -
  have a: "round_double (28 / 10) = 3152519739159347 / 1125899906842624"
    by (simp add: round_double_eval)
  have c: "closestFL round_double [round_double (28 / 10), 25 / 2] (round_double (108 / 10))
       = [788129934789837 / 281474976710656, 25 / 2]"
    by (simp add: closestFL_def argsort_def upt_rec round_double_eval)
  have ap: "cal_AP roundingAPCal
      = Some \<lparr> cp1 = [round_double (28 / 10), 25 / 2],
               coef = [[1 / 4, - 2 / 1000], [1 / 5, - 1 / 1000]] \<rparr>"
    by (simp add: roundingAPCal_def)
  have i: "index_of [round_double (28 / 10), 25 / 2] (788129934789837 / 281474976710656)
       = Inl ValueError"
    unfolding a by simp
  have "NA2IrisStep round_double newton roundingAPCal NA (round_double (108 / 10))
       = Inl ValueError"
    using ap c i by (simp add: NA2IrisStep_def bindE_def)
  with a c show ?thesis by simp
qed

end
